theory Spec2Isabelle
  imports Main "HOL-Library.AList"
begin

section \<open>Python values the code handles\<close>

text \<open>
  Exceptions deriving from Python's \<open>Exception\<close>, as values. \<open>TypeError\<close> is raised by a
  call with the wrong number of arguments, by calling \<open>None\<close> and by iterating an object
  that is not iterable; \<open>AttributeError\<close> by reading a class attribute that was never
  assigned; \<open>IndexError\<close> by \<open>[...][0]\<close> on an empty list; \<open>KeyError\<close> by a dict
  lookup of a missing key. \<open>Failure s\<close> stands for any other exception, \<open>s\<close> being
  its \<open>str\<close>.
\<close>

datatype exn = TypeError | AttributeError | IndexError | KeyError | Failure string

text \<open>
  \<open>Element\<close> is declared in \<open>JustBot.apis.element\<close>, which is not among the sources. An
  element is represented by what the code at hand observes of it: the string its
  \<open>to_code()\<close> returns, the string its \<open>as_display()\<close> returns, what iterating it
  yields (\<open>None\<close> when its class is not iterable, so that \<open>for i in e\<close> raises
  \<open>TypeError\<close>), and whether its class is \<open>Element\<close> itself or one of
  \<open>Element.__subclasses__()\<close>, the direct subclasses.
\<close>

datatype Element =
  Element (elem_to_code: string) (elem_as_display: string)
          (elem_iter: "Element list option") (elem_direct: bool)

text \<open>
  The argument of \<open>MessageChain.create\<close>: a list of elements, as its signature declares,
  or one bare element, as \<open>send_msg\<close> passes.
\<close>

datatype elements_arg = Elems "Element list" | Single Element

fun py_iter :: "elements_arg \<Rightarrow> exn + Element list" where
  "py_iter (Elems es) = Inr es"
| "py_iter (Single e) = (case elem_iter e of None \<Rightarrow> Inl TypeError | Some es \<Rightarrow> Inr es)"

section \<open>apis/message\_chain.py\<close>

text \<open>
  \<open>__new__\<close> assigns to attributes of \<open>cls\<close> and returns \<open>cls\<close>, and every method is a
  classmethod: the state of a chain is the state of the class \<open>MessageChain\<close>, one for the
  whole program, and every chain the constructors return is that class object. The record
  holds the class attributes, \<open>None\<close> for an attribute that was never assigned
  (\<open>priv_strings\<close> is \<open>_strings\<close>, \<open>priv_result\<close> is \<open>_result\<close>). The annotation
  \<open>cls.elements: List[Element]\<close> in \<open>__new__\<close> assigns nothing.
\<close>

record MessageChain =
  elements :: "elements_arg option"
  priv_strings :: "string list option"
  priv_result :: "string option"

definition MessageChain_class :: MessageChain where
  "MessageChain_class = \<lparr>elements = None, priv_strings = None, priv_result = None\<rparr>"

definition MessageChain_new :: "string list \<Rightarrow> MessageChain \<Rightarrow> MessageChain" where
  "MessageChain_new strs cls =
     cls\<lparr>priv_strings := Some strs, priv_result := Some (foldl (\<lambda>r i. r @ i) [] strs)\<rparr>"

definition create :: "elements_arg \<Rightarrow> MessageChain \<Rightarrow> (exn + unit) \<times> MessageChain" where
  "create els cls =
     (let cls1 = cls\<lparr>elements := Some els\<rparr> in
      case py_iter els of
        Inl e \<Rightarrow> (Inl e, cls1)
      | Inr es \<Rightarrow>
          (Inr (), MessageChain_new (foldl (\<lambda>strs i. strs @ [elem_to_code i]) [] es) cls1))"

definition to_code :: "MessageChain \<Rightarrow> exn + string" where
  "to_code cls = (case priv_result cls of None \<Rightarrow> Inl AttributeError | Some r \<Rightarrow> Inr r)"

definition as_display :: "MessageChain \<Rightarrow> exn + string" where
  "as_display cls =
     (case elements cls of
        None \<Rightarrow> Inl AttributeError
      | Some els \<Rightarrow>
          (case py_iter els of
             Inl e \<Rightarrow> Inl e
           | Inr es \<Rightarrow> Inr (concat (map elem_as_display es))))"

text \<open>
  The wire form in the words of the specification: the in-order concatenation of the
  wire rendering of each element.
\<close>

definition spec_wire_form :: "Element list \<Rightarrow> string" where
  "spec_wire_form es = concat (map elem_to_code es)"

section \<open>jbot/\_\_init\_\_.py: send\_msg\<close>

text \<open>
  The texts the loggers receive. The source's texts are Chinese sentences with the
  arguments formatted in; a constructor stands for each sentence and carries its
  arguments.
\<close>

datatype level = Info | Warning | Error

datatype func = Function (func_id: nat) (iscoroutinefunction: bool)

datatype desc = MessageMatcher | ParamConvertType | RoleGroup | NaturalLanguage

datatype log_text =
    MessageTypeWrong
  | CannotSend exn
  | PriorityTypeWrong
  | PriorityBelowZero
  | Registered bool string int func
  | NotAsync func
  | NotAListener desc func

type_synonym log = "(level \<times> log_text) list"

datatype Contact = Contact int

text \<open>
  The \<open>message\<close> argument of \<open>send_msg\<close>, by its type. \<open>ChainObject\<close> is the class object
  \<open>MessageChain\<close>, which is what both constructors return; its type is \<open>type\<close>.
  \<open>ChainInstance\<close> is an object whose type is \<open>MessageChain\<close>; the constructors never
  produce one. \<open>OtherObject\<close> is a value of any other type.
\<close>

datatype message =
    ChainObject
  | ChainInstance
  | Str string
  | Elem Element
  | PyList "Element list"
  | PyTuple "Element list"
  | OtherObject

text \<open>
  The adapter is outside the sources. \<open>send_message\<close> gives the outcome of awaiting
  \<open>adapter.send_message(target, chain)\<close>, which may depend on the target, on the chain
  argument and on the state of the class \<open>MessageChain\<close> at that moment: \<open>Some e\<close> when
  it raises \<open>e\<close>. \<open>plain\<close> gives the outcome of the expression that looks up the class
  named \<open>Plain\<close> under the subclasses of \<open>Element\<close> matching the adapter's name and
  applies it to the string; an empty lookup raises \<open>IndexError\<close>.
\<close>

record Adapter =
  send_message :: "Contact \<Rightarrow> message \<Rightarrow> MessageChain \<Rightarrow> exn option"
  plain :: "string \<Rightarrow> exn + Element"

text \<open>
  What \<open>send_msg\<close> reads and writes: the class \<open>MessageChain\<close>, the adapter's logger,
  and the calls of \<open>adapter.send_message\<close> made so far, each with its target, its chain
  argument, the state of the class at the call and the outcome.
\<close>

record World =
  chain_class :: MessageChain
  adapter_logger :: log
  sent :: "(Contact \<times> message \<times> MessageChain \<times> exn option) list"

definition send :: "Adapter \<Rightarrow> Contact \<Rightarrow> message \<Rightarrow> World \<Rightarrow> (exn + unit) \<times> World" where
  "send adapter target chain w =
     (let outcome = send_message adapter target chain (chain_class w);
          w1 = w\<lparr>sent := sent w @ [(target, chain, chain_class w, outcome)]\<rparr>
      in case outcome of Some e \<Rightarrow> (Inl e, w1) | None \<Rightarrow> (Inr (), w1))"

text \<open>
  A call \<open>MessageChain.create(a1, ..., an)\<close>: \<open>create\<close> takes exactly one argument besides
  \<open>cls\<close>, so any other number raises \<open>TypeError\<close> before the body runs.
\<close>

definition call_create :: "elements_arg list \<Rightarrow> MessageChain \<Rightarrow> (exn + unit) \<times> MessageChain" where
  "call_create args cls = (case args of [a] \<Rightarrow> create a cls | _ \<Rightarrow> (Inl TypeError, cls))"

text \<open>\<open>await send(MessageChain.create(...))\<close>: the chain handed on is the class object.\<close>

definition send_create :: "Adapter \<Rightarrow> Contact \<Rightarrow> elements_arg list \<Rightarrow> World \<Rightarrow> (exn + unit) \<times> World" where
  "send_create adapter target args w =
     (case call_create args (chain_class w) of
        (Inl e, cls) \<Rightarrow> (Inl e, w\<lparr>chain_class := cls\<rparr>)
      | (Inr u, cls) \<Rightarrow> send adapter target ChainObject (w\<lparr>chain_class := cls\<rparr>))"

definition error :: "World \<Rightarrow> (exn + unit) \<times> World" where
  "error w = (Inr (), w\<lparr>adapter_logger := adapter_logger w @ [(Warning, MessageTypeWrong)]\<rparr>)"

fun is_element :: "message \<Rightarrow> bool" where
  "is_element (Elem e) = elem_direct e"
| "is_element m = False"

fun is_list :: "message \<Rightarrow> bool" where
  "is_list (PyList es) = True"
| "is_list (PyTuple es) = True"
| "is_list m = False"

fun items :: "message \<Rightarrow> Element list" where
  "items (PyList es) = es"
| "items (PyTuple es) = es"
| "items m = []"

text \<open>
  The body of the \<open>try\<close>, branch by branch. \<open>is_element\<close> holds of an \<open>Elem\<close> only, so
  the default of the inner \<open>case\<close>, like the innermost \<open>else\<close> of the source, is never
  reached.
\<close>

definition send_msg_try :: "Adapter \<Rightarrow> Contact \<Rightarrow> message \<Rightarrow> World \<Rightarrow> (exn + unit) \<times> World" where
  "send_msg_try adapter target msg w =
     (case msg of
        ChainInstance \<Rightarrow> send adapter target msg w
      | Str s \<Rightarrow>
          (case plain adapter s of
             Inl e \<Rightarrow> (Inl e, w)
           | Inr p \<Rightarrow> send_create adapter target [Single p] w)
      | _ \<Rightarrow>
          if is_element msg \<or> is_list msg then
            (if is_element msg then
               (case msg of Elem e \<Rightarrow> send_create adapter target [Single e] w | _ \<Rightarrow> error w)
             else if is_list msg then send_create adapter target (map Single (items msg)) w
             else error w)
          else error w)"

text \<open>
  \<open>except Exception as e\<close>: the error is logged on the adapter's logger and the same
  exception is raised again.
\<close>

definition send_msg :: "Adapter \<Rightarrow> Contact \<Rightarrow> message \<Rightarrow> World \<Rightarrow> (exn + unit) \<times> World" where
  "send_msg adapter target msg w =
     (case send_msg_try adapter target msg w of
        (Inl e, w1) \<Rightarrow> (Inl e, w1\<lparr>adapter_logger := adapter_logger w1 @ [(Error, CannotSend e)]\<rparr>)
      | (Inr u, w1) \<Rightarrow> (Inr u, w1))"

section \<open>The listener manager\<close>

text \<open>An event class, with its \<open>__name__\<close>.\<close>

datatype Event = Event (ev_name: string)

text \<open>
  Modelled from the spec: \<open>Listener\<close> and \<open>ListenerManager\<close> (\<open>JustBot.utils\<close>) are not
  among the sources. A listener binds one event type to one handler and carries four
  optional attachments, absent when it is built by \<open>Listener(event, target)\<close>. The
  attached values (a matcher, a conversion type, a role dict, an NLP dict) are opaque to
  the code at hand, hence the type parameter.
\<close>

record 'v Listener =
  event :: Event
  handler :: func
  attached_matcher :: "'v option"
  attached_param_convert :: "'v option"
  attached_role :: "'v option"
  attached_nlp :: "'v option"

definition new_Listener :: "Event \<Rightarrow> func \<Rightarrow> 'v Listener" where
  "new_Listener e f =
     \<lparr>event = e, handler = f, attached_matcher = None, attached_param_convert = None,
      attached_role = None, attached_nlp = None\<rparr>"

text \<open>
  Modelled from the spec: the manager owns a mapping from event type to a sequence of
  listeners in ascending priority, equal priorities in insertion order.
\<close>

type_synonym 'v ListenerManager = "(Event \<times> (int \<times> 'v Listener) list) list"

definition listeners_of :: "'v ListenerManager \<Rightarrow> Event \<Rightarrow> (int \<times> 'v Listener) list" where
  "listeners_of lm e = (case map_of lm e of None \<Rightarrow> [] | Some ls \<Rightarrow> ls)"

definition insert_by_priority ::
  "int \<times> 'v Listener \<Rightarrow> (int \<times> 'v Listener) list \<Rightarrow> (int \<times> 'v Listener) list" where
  "insert_by_priority x ls =
     takeWhile (\<lambda>y. fst y \<le> fst x) ls @ x # dropWhile (\<lambda>y. fst y \<le> fst x) ls"

text \<open>
  Modelled from the spec: \<open>join\<close> inserts the listener into the sequence of its event
  type; a priority of zero or less is rejected, which the flag reports.
\<close>

definition join :: "'v Listener \<Rightarrow> int \<Rightarrow> 'v ListenerManager \<Rightarrow> bool \<times> 'v ListenerManager" where
  "join listener priority lm =
     (if priority \<le> 0 then (False, lm)
      else (True, AList.update (event listener)
                    (insert_by_priority (priority, listener) (listeners_of lm (event listener)))
                    lm))"

definition handlers :: "'v ListenerManager \<Rightarrow> func list" where
  "handlers lm = concat (map (\<lambda>(e, ls). map (\<lambda>(p, l). handler l) ls) lm)"

definition count_listeners :: "'v ListenerManager \<Rightarrow> nat" where
  "count_listeners lm = sum_list (map (\<lambda>(e, ls). length ls) lm)"

text \<open>
  Modelled from the spec: the four setters look up the listeners whose handler is the
  given function; with none they return failure and change nothing, otherwise they set
  the attachment on each and return success.
\<close>

definition set_attachment ::
  "('v Listener \<Rightarrow> 'v Listener) \<Rightarrow> func \<Rightarrow> 'v ListenerManager \<Rightarrow> bool \<times> 'v ListenerManager" where
  "set_attachment upd f lm =
     (if f \<in> set (handlers lm)
      then (True, map (\<lambda>(e, ls). (e, map (\<lambda>(p, l). (p, if handler l = f then upd l else l)) ls)) lm)
      else (False, lm))"

definition set_matcher :: "func \<Rightarrow> 'v \<Rightarrow> 'v ListenerManager \<Rightarrow> bool \<times> 'v ListenerManager" where
  "set_matcher f v = set_attachment (\<lambda>l. l\<lparr>attached_matcher := Some v\<rparr>) f"

definition set_param_convert :: "func \<Rightarrow> 'v \<Rightarrow> 'v ListenerManager \<Rightarrow> bool \<times> 'v ListenerManager" where
  "set_param_convert f v = set_attachment (\<lambda>l. l\<lparr>attached_param_convert := Some v\<rparr>) f"

definition set_role :: "func \<Rightarrow> 'v \<Rightarrow> 'v ListenerManager \<Rightarrow> bool \<times> 'v ListenerManager" where
  "set_role f v = set_attachment (\<lambda>l. l\<lparr>attached_role := Some v\<rparr>) f"

definition set_nlp :: "func \<Rightarrow> 'v \<Rightarrow> 'v ListenerManager \<Rightarrow> bool \<times> 'v ListenerManager" where
  "set_nlp f v = set_attachment (\<lambda>l. l\<lparr>attached_nlp := Some v\<rparr>) f"

section \<open>jbot/\_\_init\_\_.py: on and the attachment decorators\<close>

text \<open>The parts of the application the decorators read and write.\<close>

record 'v BotApplication =
  logger :: log
  listener_manager :: "'v ListenerManager"

text \<open>
  The arguments of \<open>on\<close>. The priority is an \<open>int\<close> or a value of another type (a
  \<open>bool\<close>, a \<open>float\<close>, a \<open>str\<close>); the event is a class, a list of classes or a tuple
  of classes.
\<close>

datatype priority_arg = IntValue int | NotAnInt

datatype event_arg = OneEvent Event | EventList "Event list" | EventTuple "Event list"

text \<open>
  What \<open>on\<close> returns: the function \<open>lambda target: target\<close>, the closure \<open>wrapper\<close> over
  \<open>event\<close> and \<open>priority\<close>, or \<open>None\<close> where the body ends without a \<open>return\<close>.
\<close>

datatype decorator = Identity | Wrapper event_arg int | NoneValue

definition on :: "event_arg \<Rightarrow> priority_arg \<Rightarrow> 'v BotApplication \<Rightarrow> decorator \<times> 'v BotApplication" where
  "on ev priority app =
     (case priority of
        NotAnInt \<Rightarrow> (Identity, app\<lparr>logger := logger app @ [(Error, PriorityTypeWrong)]\<rparr>)
      | IntValue p \<Rightarrow>
          if p > 0 then (Wrapper ev p, app)
          else (NoneValue, app\<lparr>logger := logger app @ [(Error, PriorityBelowZero)]\<rparr>))"

fun str_join :: "string \<Rightarrow> string list \<Rightarrow> string" where
  "str_join sep [] = []"
| "str_join sep [x] = x"
| "str_join sep (x # y # ys) = x @ sep @ str_join sep (y # ys)"

text \<open>The two lambdas of \<open>wrapper\<close>, \<open>join\<close> and \<open>register\<close>.\<close>

definition wrapper_join :: "func \<Rightarrow> int \<Rightarrow> Event \<Rightarrow> 'v BotApplication \<Rightarrow> 'v BotApplication" where
  "wrapper_join f priority e app =
     app\<lparr>listener_manager := snd (join (new_Listener e f) priority (listener_manager app))\<rparr>"

definition register :: "func \<Rightarrow> int \<Rightarrow> bool \<Rightarrow> string \<Rightarrow> 'v BotApplication \<Rightarrow> 'v BotApplication" where
  "register f priority multi name app =
     app\<lparr>logger := logger app @ [(Info, Registered multi name priority f)]\<rparr>"

definition wrapper :: "event_arg \<Rightarrow> int \<Rightarrow> func \<Rightarrow> 'v BotApplication \<Rightarrow> func \<times> 'v BotApplication" where
  "wrapper ev0 priority f app =
     (if iscoroutinefunction f then
        (let ev = (case ev0 of
                     EventList es \<Rightarrow> if length es = 1 then OneEvent (es ! 0) else ev0
                   | _ \<Rightarrow> ev0)
         in case ev of
              OneEvent e \<Rightarrow>
                (f, wrapper_join f priority e (register f priority True (ev_name e) app))
            | EventList es \<Rightarrow>
                (f, foldl (\<lambda>a e. wrapper_join f priority e a)
                      (register f priority False (str_join '' & '' (map ev_name es)) app) es)
            | EventTuple es \<Rightarrow>
                (f, foldl (\<lambda>a e. wrapper_join f priority e a)
                      (register f priority False (str_join '' & '' (map ev_name es)) app) es))
      else (f, app\<lparr>logger := logger app @ [(Warning, NotAsync f)]\<rparr>))"

text \<open>Calling what \<open>on\<close> returned with the function to decorate; \<open>None\<close> is not callable.\<close>

definition call_decorator ::
  "decorator \<Rightarrow> func \<Rightarrow> 'v BotApplication \<Rightarrow> (exn + func) \<times> 'v BotApplication" where
  "call_decorator d f app =
     (case d of
        Identity \<Rightarrow> (Inr f, app)
      | Wrapper ev p \<Rightarrow> (case wrapper ev p f app of (g, app1) \<Rightarrow> (Inr g, app1))
      | NoneValue \<Rightarrow> (Inl TypeError, app))"

text \<open>\<open>@app.on(event, priority)\<close> over the definition of \<open>f\<close>: \<open>app.on(event, priority)(f)\<close>.\<close>

definition decorate ::
  "event_arg \<Rightarrow> priority_arg \<Rightarrow> func \<Rightarrow> 'v BotApplication \<Rightarrow> (exn + func) \<times> 'v BotApplication" where
  "decorate ev priority f app = (case on ev priority app of (d, app1) \<Rightarrow> call_decorator d f app1)"

text \<open>
  \<open>__set_decorator(value, type, desc)\<close> applied to the function: \<open>mapping[type]()\<close> calls
  the setter of the listener manager, and a false flag is logged as a warning.
\<close>

definition set_decorator ::
  "'v \<Rightarrow> string \<Rightarrow> desc \<Rightarrow> func \<Rightarrow> 'v BotApplication \<Rightarrow> (exn + func) \<times> 'v BotApplication" where
  "set_decorator v type d f app =
     (let mapping =
            [(''matcher'', set_matcher f v), (''param_convert'', set_param_convert f v),
             (''role'', set_role f v), (''nlp'', set_nlp f v)]
      in case map_of mapping type of
           None \<Rightarrow> (Inl KeyError, app)
         | Some setter \<Rightarrow>
             (case setter (listener_manager app) of
                (flag, lm) \<Rightarrow>
                  (let app1 = app\<lparr>listener_manager := lm\<rparr> in
                   if \<not> flag
                   then (Inr f, app1\<lparr>logger := logger app1 @ [(Warning, NotAListener d f)]\<rparr>)
                   else (Inr f, app1))))"

text \<open>
  The six public decorators. Each takes the value its method builds from its arguments
  (the \<open>CommandMatcher\<close>, the \<open>KeywordMatcher\<close>, the matcher itself, the conversion type,
  the dict of role and todo, the dict of confidence, keywords and params).
\<close>

definition command :: "'v \<Rightarrow> func \<Rightarrow> 'v BotApplication \<Rightarrow> (exn + func) \<times> 'v BotApplication" where
  "command command_matcher = set_decorator command_matcher ''matcher'' MessageMatcher"

definition keyword :: "'v \<Rightarrow> func \<Rightarrow> 'v BotApplication \<Rightarrow> (exn + func) \<times> 'v BotApplication" where
  "keyword keyword_matcher = set_decorator keyword_matcher ''matcher'' MessageMatcher"

definition matcher :: "'v \<Rightarrow> func \<Rightarrow> 'v BotApplication \<Rightarrow> (exn + func) \<times> 'v BotApplication" where
  "matcher m = set_decorator m ''matcher'' MessageMatcher"

definition param_convert :: "'v \<Rightarrow> func \<Rightarrow> 'v BotApplication \<Rightarrow> (exn + func) \<times> 'v BotApplication" where
  "param_convert t = set_decorator t ''param_convert'' ParamConvertType"

definition role :: "'v \<Rightarrow> func \<Rightarrow> 'v BotApplication \<Rightarrow> (exn + func) \<times> 'v BotApplication" where
  "role role_todo = set_decorator role_todo ''role'' RoleGroup"

definition nlp :: "'v \<Rightarrow> func \<Rightarrow> 'v BotApplication \<Rightarrow> (exn + func) \<times> 'v BotApplication" where
  "nlp binding = set_decorator binding ''nlp'' NaturalLanguage"

section \<open>Concrete inputs\<close>

text \<open>
  An application and a world in which nothing has happened yet, an adapter whose send
  always succeeds and one whose send always times out, and three elements: \<open>hi\<close> and
  \<open>face\<close> are not iterable, iterating \<open>hello\<close> yields \<open>hi\<close>.
\<close>

definition app0 :: "unit BotApplication" where
  "app0 = \<lparr>logger = [], listener_manager = []\<rparr>"

definition world0 :: World where
  "world0 = \<lparr>chain_class = MessageChain_class, adapter_logger = [], sent = []\<rparr>"

definition hi :: Element where
  "hi = Element ''hi'' ''hi'' None False"

definition face :: Element where
  "face = Element ''[face:12]'' ''[face]'' None False"

definition hello :: Element where
  "hello = Element ''hello'' ''hello'' (Some [hi]) False"

definition ok_adapter :: Adapter where
  "ok_adapter = \<lparr>send_message = (\<lambda>t c cls. None), plain = (\<lambda>s. Inl IndexError)\<rparr>"

definition timeout_adapter :: Adapter where
  "timeout_adapter =
     \<lparr>send_message = (\<lambda>t c cls. Some (Failure ''timeout'')), plain = (\<lambda>s. Inl IndexError)\<rparr>"

section \<open>The two loops\<close>

lemma foldl_append_acc: "foldl (\<lambda>r i. r @ i) acc strs = acc @ concat strs"
  by (induction strs arbitrary: acc) simp_all

lemma foldl_snoc_acc:
  "foldl (\<lambda>strs i. strs @ [elem_to_code i]) acc es = acc @ map elem_to_code es"
  by (induction es arbitrary: acc) simp_all

lemma new_result: "priv_result (MessageChain_new strs cls) = Some (concat strs)"
  by (simp add: MessageChain_new_def foldl_append_acc)

lemma new_strings: "priv_strings (MessageChain_new strs cls) = Some strs"
  by (simp add: MessageChain_new_def)

lemma new_elements: "elements (MessageChain_new strs cls) = elements cls"
  by (simp add: MessageChain_new_def)

lemma create_Elems:
  "create (Elems es) cls =
     (Inr (), MessageChain_new (map elem_to_code es) (cls\<lparr>elements := Some (Elems es)\<rparr>))"
  by (simp add: create_def foldl_snoc_acc)

section \<open>send\_msg: at most one send, and what it leaves\<close>

lemma send_sent:
  "send adapter tgt chain w = (r, w') \<Longrightarrow>
     sent w' = sent w @ [(tgt, chain, chain_class w, send_message adapter tgt chain (chain_class w))] \<and>
     adapter_logger w' = adapter_logger w \<and>
     r = (case send_message adapter tgt chain (chain_class w) of Some e \<Rightarrow> Inl e | None \<Rightarrow> Inr ())"
  by (auto simp: send_def Let_def split: option.splits)

lemma send_create_cases:
  "send_create adapter tgt args w = (r, w') \<Longrightarrow>
     adapter_logger w' = adapter_logger w \<and>
     ((sent w' = sent w \<and> (\<exists>e. r = Inl e)) \<or>
      (\<exists>cls. sent w' = sent w @ [(tgt, ChainObject, cls, send_message adapter tgt ChainObject cls)] \<and>
         r = (case send_message adapter tgt ChainObject cls of Some e \<Rightarrow> Inl e | None \<Rightarrow> Inr ())))"
  by (auto simp: send_create_def split: prod.splits sum.splits dest!: send_sent)

lemma error_cases: "error w = (r, w') \<Longrightarrow> sent w' = sent w \<and> r = Inr ()"
  by (auto simp: error_def)

lemma send_msg_try_cases:
  "send_msg_try adapter tgt msg w = (r, w') \<Longrightarrow>
     (sent w' = sent w \<and> (\<forall>e. r = Inl e \<longrightarrow> adapter_logger w' = adapter_logger w)) \<or>
     (\<exists>c cls. sent w' = sent w @ [(tgt, c, cls, send_message adapter tgt c cls)] \<and>
         adapter_logger w' = adapter_logger w \<and>
         r = (case send_message adapter tgt c cls of Some e \<Rightarrow> Inl e | None \<Rightarrow> Inr ()))"
  unfolding send_msg_try_def
  by (cases msg)
     (auto split: sum.splits message.splits if_splits dest!: send_create_cases send_sent error_cases)

lemma call_create_arity: "length args \<noteq> 1 \<Longrightarrow> call_create args cls = (Inl TypeError, cls)"
  by (cases args rule: list.exhaust; simp add: call_create_def split: list.splits)

lemma send_create_arity:
  "length args \<noteq> 1 \<Longrightarrow> send_create adapter tgt args w = (Inl TypeError, w)"
  by (simp add: send_create_def call_create_arity)

section \<open>The listener manager: lookups, sizes and handlers\<close>

lemma listeners_of_update:
  "listeners_of (AList.update k v lm) e = (if e = k then v else listeners_of lm e)"
  by (simp add: listeners_of_def update_conv')

lemma count_update:
  "count_listeners (AList.update k v lm) + length (listeners_of lm k) = count_listeners lm + length v"
  by (induction lm) (auto simp: count_listeners_def listeners_of_def)

lemma length_insert_by_priority: "length (insert_by_priority x ls) = Suc (length ls)"
proof -
  have "length (takeWhile (\<lambda>y. fst y \<le> fst x) ls) + length (dropWhile (\<lambda>y. fst y \<le> fst x) ls)
          = length ls"
    by (metis length_append takeWhile_dropWhile_id)
  then show ?thesis by (simp add: insert_by_priority_def)
qed

lemma set_insert_by_priority: "set (insert_by_priority x ls) = insert x (set ls)"
proof -
  have "set (takeWhile (\<lambda>y. fst y \<le> fst x) ls) \<union> set (dropWhile (\<lambda>y. fst y \<le> fst x) ls) = set ls"
    by (metis set_append takeWhile_dropWhile_id)
  then show ?thesis by (auto simp: insert_by_priority_def)
qed

lemma join_positive:
  "0 < p \<Longrightarrow> join l p lm =
     (True, AList.update (event l) (insert_by_priority (p, l) (listeners_of lm (event l))) lm)"
  by (simp add: join_def)

lemma join_listeners_of:
  "0 < p \<Longrightarrow> listeners_of (snd (join l p lm)) e =
     (if e = event l then insert_by_priority (p, l) (listeners_of lm e) else listeners_of lm e)"
  by (simp add: join_positive listeners_of_update)

lemma join_count: "0 < p \<Longrightarrow> count_listeners (snd (join l p lm)) = Suc (count_listeners lm)"
  using count_update [of "event l" "insert_by_priority (p, l) (listeners_of lm (event l))" lm]
  by (simp add: join_positive length_insert_by_priority)

lemma event_new_Listener: "event (new_Listener e f) = e"
  by (simp add: new_Listener_def)

lemma handler_new_Listener: "handler (new_Listener e f) = f"
  by (simp add: new_Listener_def)

lemma fold_join_other:
  "0 < p \<Longrightarrow> e \<notin> set es \<Longrightarrow>
     listeners_of (foldl (\<lambda>m e. snd (join (new_Listener e f) p m)) lm es) e = listeners_of lm e"
  by (induction es arbitrary: lm) (auto simp: join_listeners_of event_new_Listener)

lemma fold_join_member:
  "0 < p \<Longrightarrow> distinct es \<Longrightarrow> e \<in> set es \<Longrightarrow>
     listeners_of (foldl (\<lambda>m e. snd (join (new_Listener e f) p m)) lm es) e =
       insert_by_priority (p, new_Listener e f) (listeners_of lm e)"
  by (induction es arbitrary: lm) (auto simp: join_listeners_of event_new_Listener fold_join_other)

lemma fold_join_count:
  "0 < p \<Longrightarrow>
     count_listeners (foldl (\<lambda>m e. snd (join (new_Listener e f) p m)) lm es) =
       count_listeners lm + length es"
  by (induction es arbitrary: lm) (auto simp: join_count)

lemma handlers_Cons: "handlers ((e, ls) # lm) = map (\<lambda>(p, l). handler l) ls @ handlers lm"
  by (simp add: handlers_def)

lemma handlers_Nil: "handlers [] = []"
  by (simp add: handlers_def)

lemma handlers_listeners_of:
  "(p, l) \<in> set (listeners_of lm k) \<Longrightarrow> handler l \<in> set (handlers lm)"
  by (induction lm) (auto simp: listeners_of_def handlers_Cons split: if_splits)

lemma handlers_update:
  "set (handlers (AList.update k v lm)) \<subseteq> set (map (\<lambda>(p, l). handler l) v) \<union> set (handlers lm)"
  by (induction lm) (auto simp: handlers_Cons handlers_Nil)

lemma handlers_join: "set (handlers (snd (join l p lm))) \<subseteq> insert (handler l) (set (handlers lm))"
proof (cases "p \<le> 0")
  case True
  then show ?thesis by (auto simp: join_def)
next
  case False
  have "set (map (\<lambda>(p, l). handler l) (insert_by_priority (p, l) (listeners_of lm (event l))))
          \<subseteq> insert (handler l) (set (handlers lm))"
    by (auto simp: set_insert_by_priority dest: handlers_listeners_of)
  with handlers_update [of "event l" "insert_by_priority (p, l) (listeners_of lm (event l))" lm] False
  show ?thesis by (auto simp: join_def)
qed

lemma handlers_set_attachment:
  assumes "\<And>l. handler (upd l) = handler l"
  shows "handlers (snd (set_attachment upd f lm)) = handlers lm"
proof -
  have "handlers (map (\<lambda>(e, ls). (e, map (\<lambda>(p, l). (p, if handler l = f then upd l else l)) ls)) lm)
          = handlers lm"
    by (induction lm) (auto simp: handlers_Cons handlers_Nil assms)
  then show ?thesis by (simp add: set_attachment_def)
qed

lemma handlers_setters:
  "handlers (snd (set_matcher f v lm)) = handlers lm"
  "handlers (snd (set_param_convert f v lm)) = handlers lm"
  "handlers (snd (set_role f v lm)) = handlers lm"
  "handlers (snd (set_nlp f v lm)) = handlers lm"
  by (simp_all add: set_matcher_def set_param_convert_def set_role_def set_nlp_def
        handlers_set_attachment)

section \<open>on: what each branch does\<close>

lemma foldl_wrapper_join:
  "foldl (\<lambda>a e. wrapper_join f p e a) app es =
     app\<lparr>listener_manager :=
           foldl (\<lambda>m e. snd (join (new_Listener e f) p m)) (listener_manager app) es\<rparr>"
  by (induction es arbitrary: app) (simp_all add: wrapper_join_def)

lemma wrapper_many:
  assumes "ev = EventList es \<or> ev = EventTuple es" "2 \<le> length es" "iscoroutinefunction f"
  shows "wrapper ev p f app =
    (f, app\<lparr>logger := logger app @ [(Info, Registered False (str_join '' & '' (map ev_name es)) p f)],
            listener_manager :=
              foldl (\<lambda>m e. snd (join (new_Listener e f) p m)) (listener_manager app) es\<rparr>)"
  using assms by (auto simp: wrapper_def foldl_wrapper_join register_def)

lemma wrapper_not_async:
  "\<not> iscoroutinefunction f \<Longrightarrow>
     wrapper ev p f app = (f, app\<lparr>logger := logger app @ [(Warning, NotAsync f)]\<rparr>)"
  by (simp add: wrapper_def)

lemma decorate_NotAnInt:
  "decorate ev NotAnInt g app = (Inr g, app\<lparr>logger := logger app @ [(Error, PriorityTypeWrong)]\<rparr>)"
  by (simp add: decorate_def on_def call_decorator_def)

lemma decorate_nonpositive:
  "p \<le> 0 \<Longrightarrow> decorate ev (IntValue p) g app =
     (Inl TypeError, app\<lparr>logger := logger app @ [(Error, PriorityBelowZero)]\<rparr>)"
  by (simp add: decorate_def on_def call_decorator_def)

lemma decorate_positive:
  "0 < p \<Longrightarrow> decorate ev (IntValue p) g app =
     (Inr (fst (wrapper ev p g app)), snd (wrapper ev p g app))"
  by (simp add: decorate_def on_def call_decorator_def split: prod.splits)

lemma decorate_not_async:
  "0 < p \<Longrightarrow> \<not> iscoroutinefunction g \<Longrightarrow>
     decorate ev (IntValue p) g app = (Inr g, app\<lparr>logger := logger app @ [(Warning, NotAsync g)]\<rparr>)"
  by (simp add: decorate_positive wrapper_not_async)

lemma decorate_many:
  assumes "ev = EventList es \<or> ev = EventTuple es" "2 \<le> length es" "iscoroutinefunction f" "0 < p"
  shows "decorate ev (IntValue p) f app =
    (Inr f, app\<lparr>logger := logger app @ [(Info, Registered False (str_join '' & '' (map ev_name es)) p f)],
            listener_manager :=
              foldl (\<lambda>m e. snd (join (new_Listener e f) p m)) (listener_manager app) es\<rparr>)"
  using assms(4) by (simp add: decorate_positive wrapper_many [OF assms(1-3)])

text \<open>
  A function enters the listener manager only by being decorated with \<open>on\<close>: decorating
  \<open>g\<close> adds no handler but \<open>g\<close>, and the attachment decorators add none.
\<close>

lemma handlers_wrapper_join:
  "set (handlers (listener_manager (wrapper_join g p e app)))
     \<subseteq> insert g (set (handlers (listener_manager app)))"
  using handlers_join [of "new_Listener e g" p "listener_manager app"]
  by (simp add: wrapper_join_def new_Listener_def)

lemma handlers_foldl_wrapper_join:
  "set (handlers (listener_manager (foldl (\<lambda>a e. wrapper_join g p e a) app es)))
     \<subseteq> insert g (set (handlers (listener_manager app)))"
proof (induction es arbitrary: app)
  case Nil
  then show ?case by auto
next
  case (Cons e es)
  from Cons.IH [of "wrapper_join g p e app"] handlers_wrapper_join [of g p e app]
  show ?case by auto
qed

lemma listener_manager_register:
  "listener_manager (register g p multi n app) = listener_manager app"
  by (simp add: register_def)

lemma handlers_wrapper:
  "set (handlers (listener_manager (snd (wrapper ev p g app))))
     \<subseteq> insert g (set (handlers (listener_manager app)))"
proof -
  have one: "\<And>e. set (handlers (listener_manager
                 (wrapper_join g p e (register g p True (ev_name e) app))))
      \<subseteq> insert g (set (handlers (listener_manager app)))"
    using handlers_wrapper_join [of g p _ "register g p True _ app"]
    by (simp add: listener_manager_register)
  have many: "\<And>es n. set (handlers (listener_manager
                 (foldl (\<lambda>a e. wrapper_join g p e a) (register g p False n app) es)))
      \<subseteq> insert g (set (handlers (listener_manager app)))"
    using handlers_foldl_wrapper_join [of g p "register g p False _ app"]
    by (simp add: listener_manager_register)
  show ?thesis
    unfolding wrapper_def Let_def
    by (simp split: event_arg.split add: one many) auto
qed

lemma handlers_decorate:
  "set (handlers (listener_manager (snd (decorate ev pr g app))))
     \<subseteq> insert g (set (handlers (listener_manager app)))"
proof (cases pr)
  case NotAnInt
  then show ?thesis by (auto simp: decorate_NotAnInt)
next
  case (IntValue p)
  show ?thesis
  proof (cases "0 < p")
    case True
    with IntValue show ?thesis
      using handlers_wrapper [of ev p g app] by (simp add: decorate_positive)
  next
    case False
    with IntValue show ?thesis by (auto simp: decorate_nonpositive)
  qed
qed

lemma mapping_lookup:
  "map_of [(''matcher'', a), (''param_convert'', b), (''role'', c), (''nlp'', d)] type = Some s
     \<Longrightarrow> s = a \<or> s = b \<or> s = c \<or> s = d"
  by (simp split: if_splits)

lemma handlers_set_decorator:
  "handlers (listener_manager (snd (set_decorator v type d f app))) = handlers (listener_manager app)"
proof (cases "map_of [(''matcher'', set_matcher f v), (''param_convert'', set_param_convert f v),
                      (''role'', set_role f v), (''nlp'', set_nlp f v)] type")
  case None
  then show ?thesis unfolding set_decorator_def Let_def by simp
next
  case (Some s)
  from mapping_lookup [OF Some]
  have h: "handlers (snd (s (listener_manager app))) = handlers (listener_manager app)"
    using handlers_setters [of f v "listener_manager app"] by auto
  obtain flag lm where r: "s (listener_manager app) = (flag, lm)"
    by (cases "s (listener_manager app)")
  with h have "handlers lm = handlers (listener_manager app)" by simp
  with Some r show ?thesis unfolding set_decorator_def Let_def by simp
qed

lemma set_decorator_unregistered:
  assumes "f \<notin> set (handlers (listener_manager app))"
    and "type \<in> {''matcher'', ''param_convert'', ''role'', ''nlp''}"
  shows "set_decorator v type d f app =
           (Inr f, app\<lparr>logger := logger app @ [(Warning, NotAListener d f)]\<rparr>)"
  using assms
  by (auto simp: set_decorator_def set_matcher_def set_param_convert_def set_role_def
        set_nlp_def set_attachment_def)

section \<open>The claims\<close>

text \<open>
  C1. The claim: constructing a further chain leaves an earlier chain unchanged. The
  code keeps the state on the class, so the second construction overwrites what the first
  chain renders: after building from \<open>['a']\<close> and then from \<open>['b']\<close>, \<open>to_code()\<close> of the
  first chain, which read \<open>'a'\<close> right after its construction, reads \<open>'b'\<close>.
\<close>

theorem later_chain_overwrites_to_code:
  "to_code (MessageChain_new [''a''] MessageChain_class) = Inr ''a'' \<and>
   to_code (MessageChain_new [''b''] (MessageChain_new [''a''] MessageChain_class)) = Inr ''b''"
  by (simp add: to_code_def MessageChain_new_def)

text \<open>
  C2. For every sequence of elements \<open>E\<close> and every prior state of the class,
  \<open>create(E)\<close> succeeds and is the construction from the strings
  \<open>[e.to_code() for e in E]\<close>, run after \<open>E\<close> has been retained in \<open>elements\<close>; it leaves
  the same \<open>_strings\<close> and the same cached \<open>_result\<close> as that construction, and its
  \<open>to_code()\<close> is the in-order concatenation of the wire renderings.
\<close>

theorem create_is_new_of_codes:
  "create (Elems E) cls =
     (Inr (), MessageChain_new (map elem_to_code E) (cls\<lparr>elements := Some (Elems E)\<rparr>)) \<and>
   priv_strings (snd (create (Elems E) cls)) =
     priv_strings (MessageChain_new (map elem_to_code E) cls) \<and>
   priv_result (snd (create (Elems E) cls)) =
     priv_result (MessageChain_new (map elem_to_code E) cls) \<and>
   to_code (snd (create (Elems E) cls)) = to_code (MessageChain_new (map elem_to_code E) cls) \<and>
   to_code (snd (create (Elems E) cls)) = Inr (spec_wire_form E)"
  by (simp add: create_Elems new_result new_strings to_code_def spec_wire_form_def)

text \<open>
  C3. For every sequence of strings \<open>S\<close> and every prior state of the class, building
  from \<open>S\<close> and calling \<open>to_code()\<close> returns the concatenation of \<open>S\<close> in order; the
  value is the one the constructor stored in \<open>_result\<close>, which \<open>to_code\<close> only reads.
  The empty sequence gives the empty string.
\<close>

theorem new_to_code_concat:
  "to_code (MessageChain_new S cls) = Inr (concat S) \<and>
   priv_result (MessageChain_new S cls) = Some (concat S) \<and>
   to_code (MessageChain_new [] cls) = Inr []"
  by (simp add: to_code_def new_result)

text \<open>
  C4. The claim: \<open>as_display()\<close> of a chain built from strings only fails and never
  renders elements of another chain. In the code \<open>elements\<close> is an attribute of the
  class that the construction from strings leaves alone: once some chain has been created
  from the element \<open>Plain('hi')\<close>, a chain built from \<open>['x']\<close> displays \<open>'hi'\<close>.
\<close>

theorem strings_chain_displays_foreign_elements:
  "as_display (MessageChain_new [''x'']
     (snd (create (Elems [Element ''hi'' ''hi'' None False]) MessageChain_class))) = Inr ''hi''"
  by (simp add: as_display_def create_Elems new_elements)

text \<open>
  C5. The claim: for a priority of zero or less, \<open>on(event, p)\<close> applied to a handler
  logs the problem, adds no listener and does not crash. In the code \<open>on\<close> logs the error
  and ends without a \<open>return\<close>, so it returns \<open>None\<close>, and applying \<open>None\<close> to the
  handler raises \<open>TypeError\<close>; the branch for a priority that is not an \<open>int\<close> returns
  \<open>lambda target: target\<close> instead. With priority 0 on a fresh application: the error is
  logged, no listener is added, and the decoration raises. (For a function that is not
  async under a positive priority the claim holds: \<open>decorate_not_async\<close>.)
\<close>

theorem on_priority_zero_not_callable:
  "decorate (OneEvent (Event ''MessageEvent'')) (IntValue 0) (Function 2 True) app0 =
     (Inl TypeError, \<lparr>logger = [(Error, PriorityBelowZero)], listener_manager = []\<rparr>)"
  by (simp add: decorate_def on_def call_decorator_def app0_def)

text \<open>
  C6. For every function \<open>f\<close> that is not the handler of any listener of the manager
  (functions enter it only through \<open>on\<close>: \<open>handlers_decorate\<close>,
  \<open>handlers_set_decorator\<close>), each of \<open>command\<close>, \<open>keyword\<close>, \<open>matcher\<close>,
  \<open>param_convert\<close>, \<open>role\<close> and \<open>nlp\<close> applied to \<open>f\<close> raises nothing, returns \<open>f\<close>,
  appends one warning to the log and leaves the listener manager as it was.
\<close>

theorem attachment_on_unregistered:
  assumes "f \<notin> set (handlers (listener_manager app))"
  shows "command v1 f app = (Inr f, app\<lparr>logger := logger app @ [(Warning, NotAListener MessageMatcher f)]\<rparr>) \<and>
         keyword v2 f app = (Inr f, app\<lparr>logger := logger app @ [(Warning, NotAListener MessageMatcher f)]\<rparr>) \<and>
         matcher v3 f app = (Inr f, app\<lparr>logger := logger app @ [(Warning, NotAListener MessageMatcher f)]\<rparr>) \<and>
         param_convert v4 f app =
           (Inr f, app\<lparr>logger := logger app @ [(Warning, NotAListener ParamConvertType f)]\<rparr>) \<and>
         role v5 f app = (Inr f, app\<lparr>logger := logger app @ [(Warning, NotAListener RoleGroup f)]\<rparr>) \<and>
         nlp v6 f app = (Inr f, app\<lparr>logger := logger app @ [(Warning, NotAListener NaturalLanguage f)]\<rparr>)"
  using assms
  by (simp add: command_def keyword_def matcher_def param_convert_def role_def nlp_def
        set_decorator_unregistered)

theorem attachment_on_unregistered_witness:
  "Function 3 True \<notin> set (handlers (listener_manager
       (snd (decorate (OneEvent (Event ''MessageEvent'')) (IntValue 5) (Function 2 True) app0)))) \<and>
   command () (Function 3 True)
       (snd (decorate (OneEvent (Event ''MessageEvent'')) (IntValue 5) (Function 2 True) app0)) =
     (Inr (Function 3 True),
      \<lparr>logger = [(Info, Registered True ''MessageEvent'' 5 (Function 2 True)),
                 (Warning, NotAListener MessageMatcher (Function 3 True))],
       listener_manager =
         [(Event ''MessageEvent'', [(5, new_Listener (Event ''MessageEvent'') (Function 2 True))])]\<rparr>)"
proof -
  have a: "snd (decorate (OneEvent (Event ''MessageEvent'')) (IntValue 5) (Function 2 True) app0) =
     \<lparr>logger = [(Info, Registered True ''MessageEvent'' 5 (Function 2 True))],
       listener_manager =
         [(Event ''MessageEvent'', [(5, new_Listener (Event ''MessageEvent'') (Function 2 True))])]\<rparr>"
    by (simp add: decorate_def on_def call_decorator_def wrapper_def wrapper_join_def register_def
          join_def listeners_of_def insert_by_priority_def app0_def event_new_Listener)
  have h: "Function 3 True \<notin> set (handlers (listener_manager
       (snd (decorate (OneEvent (Event ''MessageEvent'')) (IntValue 5) (Function 2 True) app0))))"
    by (simp add: a handlers_def new_Listener_def)
  from attachment_on_unregistered [OF h, of "()" "()" "()" "()" "()" "()"] h
  show ?thesis by (simp add: a)
qed

text \<open>
  C7. For every sequence of elements \<open>E\<close> and every prior state of the class,
  \<open>as_display()\<close> right after \<open>create(E)\<close> returns the in-order concatenation of the
  display rendering of each element of \<open>E\<close>.
\<close>

theorem create_as_display_concat:
  "as_display (snd (create (Elems E) cls)) = Inr (concat (map elem_as_display E))"
  by (simp add: as_display_def create_Elems new_elements)

text \<open>
  C8. For every adapter, target, message and world: if the call of \<open>send_msg\<close> made a
  call of \<open>adapter.send_message\<close> that raised \<open>e\<close>, then \<open>send_msg\<close> raises the same
  \<open>e\<close>, and what it added to the adapter's log is one error line carrying \<open>e\<close>.
\<close>

theorem send_msg_reraises:
  assumes "send_msg adapter tgt msg w = (r, w')"
    and "sent w' = sent w @ [(t, c, cls, Some e)]"
  shows "r = Inl e \<and> adapter_logger w' = adapter_logger w @ [(Error, CannotSend e)]"
  using assms unfolding send_msg_def
  by (auto split: prod.splits sum.splits dest!: send_msg_try_cases)

theorem send_msg_reraises_witness:
  "send_msg timeout_adapter (Contact 1) (PyList [hello]) world0 =
     (Inl (Failure ''timeout''),
      \<lparr>chain_class = \<lparr>elements = Some (Single hello), priv_strings = Some [''hi''],
                       priv_result = Some ''hi''\<rparr>,
       adapter_logger = [(Error, CannotSend (Failure ''timeout''))],
       sent = [(Contact 1, ChainObject,
                \<lparr>elements = Some (Single hello), priv_strings = Some [''hi''],
                  priv_result = Some ''hi''\<rparr>,
                Some (Failure ''timeout''))]\<rparr>)"
proof -
  obtain r w' where run: "send_msg timeout_adapter (Contact 1) (PyList [hello]) world0 = (r, w')"
    by (cases "send_msg timeout_adapter (Contact 1) (PyList [hello]) world0")
  have s: "sent (snd (send_msg timeout_adapter (Contact 1) (PyList [hello]) world0)) =
     sent world0 @ [(Contact 1, ChainObject,
                \<lparr>elements = Some (Single hello), priv_strings = Some [''hi''],
                  priv_result = Some ''hi''\<rparr>,
                Some (Failure ''timeout''))]"
    and c: "chain_class (snd (send_msg timeout_adapter (Contact 1) (PyList [hello]) world0)) =
       \<lparr>elements = Some (Single hello), priv_strings = Some [''hi''], priv_result = Some ''hi''\<rparr>"
    by (simp_all add: send_msg_def send_msg_try_def send_create_def call_create_def create_def
          MessageChain_new_def send_def timeout_adapter_def world0_def hello_def hi_def
          MessageChain_class_def)
  from run s have s': "sent w' = sent world0 @ [(Contact 1, ChainObject,
                \<lparr>elements = Some (Single hello), priv_strings = Some [''hi''],
                  priv_result = Some ''hi''\<rparr>,
                Some (Failure ''timeout''))]" by simp
  from send_msg_reraises [OF run s'] run s c show ?thesis
    by (cases w') (simp add: world0_def)
qed

text \<open>
  C9. For every list or tuple \<open>es\<close> of at least two distinct event types, every async
  function \<open>f\<close> and every priority \<open>p > 0\<close>, decorating \<open>f\<close> with \<open>on(es, p)\<close> returns
  \<open>f\<close>, logs one registration line and leaves the listener manager that the calls
  \<open>join(Listener(e, f), p)\<close>, one for each \<open>e\<close> of \<open>es\<close> in order, produce: the sequence
  of each event type of \<open>es\<close> gains the one listener \<open>(p, Listener(e, f))\<close>, whose handler
  is \<open>f\<close>, the sequences of all other event types are unchanged, and the number of
  listeners grows by the length of \<open>es\<close>.
\<close>

theorem on_registers_once_per_event:
  assumes "ev = EventList es \<or> ev = EventTuple es"
    and "2 \<le> length es" and "distinct es" and "iscoroutinefunction f" and "0 < p"
  shows "decorate ev (IntValue p) f app =
           (Inr f,
            app\<lparr>logger := logger app @
                    [(Info, Registered False (str_join '' & '' (map ev_name es)) p f)],
                listener_manager :=
                    foldl (\<lambda>m e. snd (join (new_Listener e f) p m)) (listener_manager app) es\<rparr>) \<and>
         (\<forall>e \<in> set es.
            listeners_of (listener_manager (snd (decorate ev (IntValue p) f app))) e =
              insert_by_priority (p, new_Listener e f) (listeners_of (listener_manager app) e) \<and>
            handler (new_Listener e f :: 'v Listener) = f) \<and>
         (\<forall>e. e \<notin> set es \<longrightarrow>
            listeners_of (listener_manager (snd (decorate ev (IntValue p) f app))) e =
              listeners_of (listener_manager app) e) \<and>
         count_listeners (listener_manager (snd (decorate ev (IntValue p) f app))) =
           count_listeners (listener_manager app) + length es"
  using assms(3,5)
  by (simp add: decorate_many [OF assms(1,2,4,5)] fold_join_member fold_join_other fold_join_count
        handler_new_Listener)

theorem on_registers_once_per_event_witness:
  "decorate (EventList [Event ''GroupMessage'', Event ''FriendMessage'']) (IntValue 5)
       (Function 2 True) app0 =
     (Inr (Function 2 True),
      \<lparr>logger = [(Info, Registered False ''GroupMessage & FriendMessage'' 5 (Function 2 True))],
       listener_manager =
         [(Event ''GroupMessage'', [(5, new_Listener (Event ''GroupMessage'') (Function 2 True))]),
          (Event ''FriendMessage'', [(5, new_Listener (Event ''FriendMessage'') (Function 2 True))])]\<rparr>) \<and>
   count_listeners (listener_manager (snd (decorate
       (EventList [Event ''GroupMessage'', Event ''FriendMessage'']) (IntValue 5)
       (Function 2 True) app0))) = 2"
proof -
  have "EventList [Event ''GroupMessage'', Event ''FriendMessage''] =
          EventList [Event ''GroupMessage'', Event ''FriendMessage''] \<or>
        EventList [Event ''GroupMessage'', Event ''FriendMessage''] =
          EventTuple [Event ''GroupMessage'', Event ''FriendMessage'']"
    and "2 \<le> length [Event ''GroupMessage'', Event ''FriendMessage'']"
    and "distinct [Event ''GroupMessage'', Event ''FriendMessage'']"
    and "iscoroutinefunction (Function 2 True)"
    and "0 < (5::int)"
    by simp_all
  from on_registers_once_per_event [OF this, of app0]
  have d: "decorate (EventList [Event ''GroupMessage'', Event ''FriendMessage'']) (IntValue 5)
       (Function 2 True) app0 =
     (Inr (Function 2 True),
      app0\<lparr>logger := logger app0 @
                [(Info, Registered False
                   (str_join '' & '' (map ev_name [Event ''GroupMessage'', Event ''FriendMessage'']))
                   5 (Function 2 True))],
           listener_manager :=
             foldl (\<lambda>m e. snd (join (new_Listener e (Function 2 True)) 5 m))
               (listener_manager app0) [Event ''GroupMessage'', Event ''FriendMessage'']\<rparr>)"
    by (rule conjunct1)
  show ?thesis
    using d unfolding app0_def
    by (simp add: join_def listeners_of_def insert_by_priority_def count_listeners_def
          event_new_Listener)
qed

text \<open>
  C10. For every list or tuple of elements whose length is not 1, \<open>send_msg\<close> raises
  \<open>TypeError\<close> (the elements are unpacked into \<open>MessageChain.create\<close>, which takes one
  argument), logs it as an error on the adapter's logger, changes nothing else and makes
  no call of \<open>adapter.send_message\<close>.
\<close>

theorem send_msg_list_arity:
  assumes "length es \<noteq> 1"
  shows "send_msg adapter tgt (PyList es) w =
           (Inl TypeError, w\<lparr>adapter_logger := adapter_logger w @ [(Error, CannotSend TypeError)]\<rparr>) \<and>
         send_msg adapter tgt (PyTuple es) w =
           (Inl TypeError, w\<lparr>adapter_logger := adapter_logger w @ [(Error, CannotSend TypeError)]\<rparr>) \<and>
         sent (snd (send_msg adapter tgt (PyList es) w)) = sent w \<and>
         sent (snd (send_msg adapter tgt (PyTuple es) w)) = sent w"
  using assms by (simp add: send_msg_def send_msg_try_def send_create_arity)

theorem send_msg_list_arity_witness:
  "length [hi, face] \<noteq> 1 \<and>
   send_msg ok_adapter (Contact 1) (PyList [hi, face]) world0 =
     (Inl TypeError,
      \<lparr>chain_class = MessageChain_class, adapter_logger = [(Error, CannotSend TypeError)], sent = []\<rparr>) \<and>
   send_msg ok_adapter (Contact 1) (PyTuple []) world0 =
     (Inl TypeError,
      \<lparr>chain_class = MessageChain_class, adapter_logger = [(Error, CannotSend TypeError)], sent = []\<rparr>)"
proof -
  have two: "length [hi, face] \<noteq> 1" and none: "length ([] :: Element list) \<noteq> 1" by simp_all
  from send_msg_list_arity [OF two, of ok_adapter "Contact 1" world0]
       send_msg_list_arity [OF none, of ok_adapter "Contact 1" world0]
  show ?thesis by (simp add: world0_def)
qed

end
